theory Spec2Isabelle
  imports Main
begin

section \<open>Errors\<close>

text \<open>
  The notebooks define no exception of their own. A failure is whatever the interpreter
  or a called library raises: \<open>IndexError\<close> for a list index out of range,
  \<open>NameError\<close> for a name read before it is bound, and \<open>LibraryError\<close> for an
  exception raised inside a library call (the string is the library's own message).
\<close>

datatype error = IndexError | NameError string | LibraryError string

section \<open>The function \<open>print_top_words\<close> of the topic-modelling notebook\<close>

text \<open>
  \<^verbatim>\<open>
  def print_top_words(model, feature_names, n_top_words):
      for topic_idx, topic in enumerate(model.components_):
          message = "Topic #%d: " % topic_idx
          message += " ".join([feature_names[i] for i in topic.argsort()[:-n_top_words - 1:-1]])
          print(message)
      print()
  \<close>
  \<open>model.components_\<close> is a matrix with one row of weights per topic; the field is
  called \<open>components\<close> here. The weights are the entries of a fitted factorisation:
  finite numbers, compared with \<open>\<le>\<close>, so any linear order stands for them.
\<close>

record 'a model =
  components :: "'a list list"

text \<open>
  \<open>"Topic #%d: " % topic_idx\<close> writes the index in decimal; \<open>topic_idx\<close> comes from
  \<open>enumerate\<close> and is never negative.
\<close>

fun decimal :: "nat \<Rightarrow> string" where
  "decimal n =
     (if n < 10 then [char_of (48 + n)]
      else decimal (n div 10) @ [char_of (48 + n mod 10)])"

text \<open>\<open>sep.join(ws)\<close>: the words with the separator between neighbours.\<close>

fun join :: "string \<Rightarrow> string list \<Rightarrow> string" where
  "join sep [] = []"
| "join sep [w] = w"
| "join sep (w # v # ws) = w @ sep @ join sep (v # ws)"

text \<open>
  The slice \<open>xs[:-n_top_words - 1:-1]\<close>, with Python's rules for a slice of step
  \<open>-1\<close>: the start defaults to the last position; a negative stop has the length added
  and, when still negative, becomes \<open>-1\<close>; a stop at or beyond the length becomes the last
  position. The slice then holds the positions from the start down to, and without, the
  stop.
\<close>

definition top_slice :: "'b list \<Rightarrow> int \<Rightarrow> 'b list" where
  "top_slice xs n_top_words =
     (let len = int (length xs);
          stop0 = - n_top_words - 1;
          stop = (if stop0 < 0 then (if stop0 + len < 0 then - 1 else stop0 + len)
                  else if len \<le> stop0 then len - 1 else stop0)
      in map (\<lambda>i. xs ! nat i) (rev [stop + 1 .. len - 1]))"

text \<open>
  \<open>feature_names[i]\<close> on a Python list, for an index that \<open>argsort\<close> produced (never
  negative): the entry, or \<open>IndexError\<close> past the end.
\<close>

definition getitem :: "'b list \<Rightarrow> nat \<Rightarrow> error + 'b" where
  "getitem xs i = (if i < length xs then Inr (xs ! i) else Inl IndexError)"

text \<open>
  The comprehension \<open>[feature_names[i] for i in ...]\<close> looks the indices up from left
  to right and stops at the first that fails.
\<close>

fun lookup_names :: "string list \<Rightarrow> nat list \<Rightarrow> error + string list" where
  "lookup_names feature_names [] = Inr []"
| "lookup_names feature_names (i # rest) =
     (case getitem feature_names i of
        Inl e \<Rightarrow> Inl e
      | Inr w \<Rightarrow>
          (case lookup_names feature_names rest of
             Inl e \<Rightarrow> Inl e
           | Inr ws \<Rightarrow> Inr (w # ws)))"

text \<open>
  \<open>topic.argsort()\<close> is numpy's: it returns the positions of the row in an order that
  sorts the weights ascending. numpy does not fix the order of equal weights (the default
  sort is not stable), so the function is a parameter \<open>argsort\<close> of the model, and
  \<open>is_argsort\<close> is what numpy promises of its result. \<open>argsort_stable\<close> is one such
  function (equal weights keep their order), used to run the model.
\<close>

definition is_argsort :: "('a::linorder) list \<Rightarrow> nat list \<Rightarrow> bool" where
  "is_argsort row p \<longleftrightarrow> sort p = [0..<length row] \<and> sorted (map (\<lambda>i. row ! i) p)"

definition argsort_stable :: "('a::linorder) list \<Rightarrow> nat list" where
  "argsort_stable row = sort_key (\<lambda>i. row ! i) [0..<length row]"

text \<open>The positions one topic's message names: \<open>topic.argsort()[:-n_top_words - 1:-1]\<close>.\<close>

definition top_indices :: "('a list \<Rightarrow> nat list) \<Rightarrow> int \<Rightarrow> 'a list \<Rightarrow> nat list" where
  "top_indices argsort n_top_words topic = top_slice (argsort topic) n_top_words"

text \<open>
  The loop over \<open>enumerate(model.components_)\<close>. The state is the list of lines printed
  so far; an exception ends the loop and leaves the lines already printed.
\<close>

fun topics_loop ::
  "('a list \<Rightarrow> nat list) \<Rightarrow> string list \<Rightarrow> int \<Rightarrow> (nat \<times> 'a list) list \<Rightarrow> string list
     \<Rightarrow> string list \<times> error option" where
  "topics_loop argsort feature_names n_top_words [] out = (out, None)"
| "topics_loop argsort feature_names n_top_words ((topic_idx, topic) # rest) out =
     (case lookup_names feature_names (top_indices argsort n_top_words topic) of
        Inl e \<Rightarrow> (out, Some e)
      | Inr ws \<Rightarrow>
          topics_loop argsort feature_names n_top_words rest
            (out @ [''Topic #'' @ decimal topic_idx @ '': '' @ join '' '' ws]))"

text \<open>
  The function: the lines printed and the exception raised, if any. The final
  \<open>print()\<close> adds an empty line, and only runs when the loop has finished.
\<close>

definition print_top_words ::
  "('a list \<Rightarrow> nat list) \<Rightarrow> 'a model \<Rightarrow> string list \<Rightarrow> int \<Rightarrow> string list \<times> error option" where
  "print_top_words argsort model feature_names n_top_words =
     (case topics_loop argsort feature_names n_top_words
             (enumerate 0 (components model)) [] of
        (out, Some e) \<Rightarrow> (out, Some e)
      | (out, None) \<Rightarrow> (out @ [''''], None))"

text \<open>The message the loop prints for one topic when every lookup succeeds.\<close>

definition topic_line ::
  "('a list \<Rightarrow> nat list) \<Rightarrow> string list \<Rightarrow> int \<Rightarrow> nat \<times> 'a list \<Rightarrow> string" where
  "topic_line argsort feature_names n_top_words it =
     ''Topic #'' @ decimal (fst it) @ '': '' @
     join '' '' (map (\<lambda>i. feature_names ! i) (top_indices argsort n_top_words (snd it)))"

text \<open>
  What it means for a list of positions to be the \<open>k\<close> largest entries of a row, largest
  first: \<open>k\<close> distinct positions of the row (all of them when the row is shorter), their
  weights never increasing along the list, and no position left out has a weight above
  one that was chosen.
\<close>

definition largest_first :: "('a::linorder) list \<Rightarrow> nat \<Rightarrow> nat list \<Rightarrow> bool" where
  "largest_first row k idx \<longleftrightarrow>
     length idx = min k (length row) \<and> distinct idx \<and>
     list_all (\<lambda>i. i < length row) idx \<and>
     sorted_wrt (\<lambda>i j. row ! j \<le> row ! i) idx \<and>
     list_all (\<lambda>j. j \<in> set idx \<or> list_all (\<lambda>i. row ! j \<le> row ! i) idx) [0..<length row]"

text \<open>
  A topic whose chosen positions all lie inside \<open>feature_names\<close>: its comprehension
  raises nothing.
\<close>

definition names_known ::
  "('a list \<Rightarrow> nat list) \<Rightarrow> string list \<Rightarrow> int \<Rightarrow> nat \<times> 'a list \<Rightarrow> bool" where
  "names_known argsort feature_names n_top_words it \<longleftrightarrow>
     list_all (\<lambda>i. i < length feature_names) (top_indices argsort n_top_words (snd it))"

section \<open>The notebooks as scripts\<close>

text \<open>
  Apart from \<open>print_top_words\<close>, every code cell is straight-line code: imports,
  assignments and calls into pandas, numpy, scikit-learn and matplotlib, with one
  \<open>for\<close> loop over three plot colours and two comprehensions. A notebook is modelled
  as the list of its statements in cell order. A statement records
  \<^item> \<open>writes\<close>: the names it binds, and the objects it changes in place (a scikit-learn
    \<open>fit\<close>, \<open>fit_transform\<close> or \<open>fit_predict\<close> stores the fitted parameters in the
    estimator it is called on; \<open>transform\<close> and \<open>predict\<close> only read it);
  \<^item> \<open>reads\<close>: the names it reads (Python's builtins, which are always bound, and the
    variables of a comprehension or of the loop itself are left out);
  \<^item> \<open>calls\<close>: its function and method calls, as written, in evaluation order, each with
    the kind of thing the call does. Indexing, attribute reads and operators are not
    calls. A call in the body of a loop is listed once for every round. A cell that ends
    in a bare expression shows its value: that is the call \<open>display\<close>.
\<close>

datatype kind =
    ReadCsv string  \<comment> \<open>\<open>pd.read_csv\<close> of the given path\<close>
  | FetchCorpus     \<comment> \<open>\<open>fetch_20newsgroups\<close>, called with no \<open>data_home\<close>: the corpus from
                        scikit-learn's cache, downloaded first when the cache is empty\<close>
  | LoadBundled     \<comment> \<open>\<open>datasets.load_iris\<close>: a data set shipped inside the library\<close>
  | ReadClock       \<comment> \<open>\<open>time()\<close>\<close>
  | Compute         \<comment> \<open>a computation on values in memory\<close>
  | Split           \<comment> \<open>\<open>train_test_split\<close>\<close>
  | Construct       \<comment> \<open>construction of an estimator or transformer\<close>
  | Transform       \<comment> \<open>a transform of columns: rescaling (\<open>ss.fit_transform\<close>,
                        \<open>ss.transform\<close>), one-hot encoding (\<open>pd.get_dummies\<close>), vectorising
                        (\<open>tfidf_vectorizer.fit_transform\<close>), projecting (\<open>pca.transform\<close>)\<close>
  | Fit             \<comment> \<open>\<open>fit\<close> or \<open>fit_predict\<close> of a model (regression, NMF, k-means, PCA)\<close>
  | Predict         \<comment> \<open>\<open>predict\<close> of a fitted model\<close>
  | Log             \<comment> \<open>\<open>print\<close> of a progress or timing message\<close>
  | Print           \<comment> \<open>\<open>print\<close> of data, a metric, coefficients or ranked terms\<close>
  | Display         \<comment> \<open>the value of a cell's last expression, shown by the notebook\<close>
  | Plot            \<comment> \<open>a matplotlib call\<close>

type_synonym call = "string \<times> kind"

record stmt =
  writes :: "string list"
  reads :: "string list"
  calls :: "call list"

subsection \<open>The standard-scaling notebook\<close>

text \<open>
  \<^verbatim>\<open>
  import pandas as pd
  from sklearn.model_selection import train_test_split
  from sklearn import linear_model
  from sklearn.metrics import mean_squared_error
  import numpy as np

  df = pd.read_csv('data/powerplant.csv')
  X = df.iloc[:, :4]
  y = df.iloc[:, 4]
  X_train, X_test, y_train, y_test = train_test_split(X, y, test_size=0.3)
  lr = linear_model.LinearRegression()
  linear = lr.fit(X_train, y_train)
  y_pred = linear.predict(X_test)
  print("RMSE %f" % np.sqrt(mean_squared_error(y_test, y_pred)) )
  print(linear.coef_)
  \<close>
\<close>

definition scaling_cell1 :: "stmt list" where
  "scaling_cell1 =
    [\<lparr>writes = [''pd''], reads = [], calls = []\<rparr>,
     \<lparr>writes = [''train_test_split''], reads = [], calls = []\<rparr>,
     \<lparr>writes = [''linear_model''], reads = [], calls = []\<rparr>,
     \<lparr>writes = [''mean_squared_error''], reads = [], calls = []\<rparr>,
     \<lparr>writes = [''np''], reads = [], calls = []\<rparr>,
     \<lparr>writes = [''df''], reads = [''pd''],
      calls = [(''pd.read_csv'', ReadCsv ''data/powerplant.csv'')]\<rparr>,
     \<lparr>writes = [''X''], reads = [''df''], calls = []\<rparr>,
     \<lparr>writes = [''y''], reads = [''df''], calls = []\<rparr>,
     \<lparr>writes = [''X_train'', ''X_test'', ''y_train'', ''y_test''],
      reads = [''train_test_split'', ''X'', ''y''],
      calls = [(''train_test_split'', Split)]\<rparr>,
     \<lparr>writes = [''lr''], reads = [''linear_model''],
      calls = [(''linear_model.LinearRegression'', Construct)]\<rparr>,
     \<lparr>writes = [''linear'', ''lr''], reads = [''lr'', ''X_train'', ''y_train''],
      calls = [(''lr.fit'', Fit)]\<rparr>,
     \<lparr>writes = [''y_pred''], reads = [''linear'', ''X_test''],
      calls = [(''linear.predict'', Predict)]\<rparr>,
     \<lparr>writes = [], reads = [''np'', ''mean_squared_error'', ''y_test'', ''y_pred''],
      calls = [(''mean_squared_error'', Compute), (''np.sqrt'', Compute), (''print'', Print)]\<rparr>,
     \<lparr>writes = [], reads = [''linear''], calls = [(''print'', Print)]\<rparr>]"

text \<open>
  \<^verbatim>\<open>
  from sklearn.preprocessing import StandardScaler

  X_train, X_test, y_train, y_test = train_test_split(X, y, test_size=0.3)

  ss = StandardScaler()

  X_train_ss = ss.fit_transform(X_train)

  lr = linear_model.LinearRegression()
  linear = lr.fit(X_train_ss, y_train)
  \<close>
\<close>

definition scaling_cell2 :: "stmt list" where
  "scaling_cell2 =
    [\<lparr>writes = [''StandardScaler''], reads = [], calls = []\<rparr>,
     \<lparr>writes = [''X_train'', ''X_test'', ''y_train'', ''y_test''],
      reads = [''train_test_split'', ''X'', ''y''],
      calls = [(''train_test_split'', Split)]\<rparr>,
     \<lparr>writes = [''ss''], reads = [''StandardScaler''],
      calls = [(''StandardScaler'', Construct)]\<rparr>,
     \<lparr>writes = [''X_train_ss'', ''ss''], reads = [''ss'', ''X_train''],
      calls = [(''ss.fit_transform'', Transform)]\<rparr>,
     \<lparr>writes = [''lr''], reads = [''linear_model''],
      calls = [(''linear_model.LinearRegression'', Construct)]\<rparr>,
     \<lparr>writes = [''linear'', ''lr''], reads = [''lr'', ''X_train_ss'', ''y_train''],
      calls = [(''lr.fit'', Fit)]\<rparr>]"

text \<open>
  \<^verbatim>\<open>
  y_pred = linear.predict(ss.transform(X_test))
  print("RMSE %f" % np.sqrt(mean_squared_error(y_test, y_pred)) )
  \<close>
\<close>

definition scaling_cell3 :: "stmt list" where
  "scaling_cell3 =
    [\<lparr>writes = [''y_pred''], reads = [''linear'', ''ss'', ''X_test''],
      calls = [(''ss.transform'', Transform), (''linear.predict'', Predict)]\<rparr>,
     \<lparr>writes = [], reads = [''np'', ''mean_squared_error'', ''y_test'', ''y_pred''],
      calls = [(''mean_squared_error'', Compute), (''np.sqrt'', Compute), (''print'', Print)]\<rparr>]"

text \<open>
  \<^verbatim>\<open>
  linear.coef_
  \<close>
  The last code cell is empty.
\<close>

definition scaling_cell4 :: "stmt list" where
  "scaling_cell4 =
    [\<lparr>writes = [], reads = [''linear''], calls = [(''display'', Display)]\<rparr>]"

definition scaling_notebook :: "stmt list" where
  "scaling_notebook = scaling_cell1 @ scaling_cell2 @ scaling_cell3 @ scaling_cell4"

subsection \<open>The topic-modelling notebook\<close>









subsection \<open>The clustering and dimensionality-reduction notebook\<close>









section \<open>The statements step by step\<close>

text \<open>
  To say where a run stops, a statement is also written out as the steps Python takes to
  evaluate it, in Python's order (the callee before its arguments, the arguments from left
  to right, keyword arguments after positional ones, the right-hand side of an assignment
  before its targets):
  \<^item> \<open>Load v\<close>: the name \<open>v\<close> is looked up (builtins are always bound and are not
    looked up here);
  \<^item> \<open>Call f k\<close>: the call \<open>f\<close>, of kind \<open>k\<close>;
  \<^item> \<open>Oper t\<close>: an operation of a library that is not a call: the import of a module
    or of a name from it, an attribute read, a subscript, an operator, the unpacking of a
    sequence; \<open>t\<close> is the piece of source it evaluates;
  \<^item> \<open>Mutate v\<close>: the call before it has changed the object \<open>v\<close> in place;
  \<^item> \<open>Store v\<close>: the name \<open>v\<close> is bound.
  Literals and the construction of tuples, lists and slices from them are no steps. A loop
  or comprehension with a fixed number of rounds is written out round by round. The one
  comprehension whose number of rounds depends on the data (over the vocabulary, in the
  topic-modelling notebook) is a single \<open>Oper\<close>; so is, for its caller, the body of
  \<open>print_top_words\<close>, which is the call \<open>print_top_words\<close>.
\<close>

datatype step =
    Load string
  | Call string kind
  | Oper string
  | Mutate string
  | Store string

text \<open>
  A command of a cell is a statement, or a \<open>try\<close> with its body and its handler
  (\<open>try: body except: handler\<close>). No cell of the repository has a \<open>try\<close>.
\<close>

datatype cmd =
    Simple "step list"
  | Try "step list" "step list"

subsection \<open>The standard-scaling notebook, step by step\<close>

definition scaling_script1 :: "step list list" where
  "scaling_script1 =
    [[Oper ''import pandas'', Store ''pd''],
     [Oper ''from sklearn.model_selection import train_test_split'', Store ''train_test_split''],
     [Oper ''from sklearn import linear_model'', Store ''linear_model''],
     [Oper ''from sklearn.metrics import mean_squared_error'', Store ''mean_squared_error''],
     [Oper ''import numpy'', Store ''np''],
     [Load ''pd'', Oper ''pd.read_csv'',
      Call ''pd.read_csv'' (ReadCsv ''data/powerplant.csv''), Store ''df''],
     [Load ''df'', Oper ''df.iloc'', Oper ''df.iloc[:, :4]'', Store ''X''],
     [Load ''df'', Oper ''df.iloc'', Oper ''df.iloc[:, 4]'', Store ''y''],
     [Load ''train_test_split'', Load ''X'', Load ''y'', Call ''train_test_split'' Split,
      Oper ''unpack'', Store ''X_train'', Store ''X_test'', Store ''y_train'', Store ''y_test''],
     [Load ''linear_model'', Oper ''linear_model.LinearRegression'',
      Call ''linear_model.LinearRegression'' Construct, Store ''lr''],
     [Load ''lr'', Oper ''lr.fit'', Load ''X_train'', Load ''y_train'', Call ''lr.fit'' Fit,
      Mutate ''lr'', Store ''linear''],
     [Load ''linear'', Oper ''linear.predict'', Load ''X_test'',
      Call ''linear.predict'' Predict, Store ''y_pred''],
     [Load ''np'', Oper ''np.sqrt'', Load ''mean_squared_error'', Load ''y_test'',
      Load ''y_pred'', Call ''mean_squared_error'' Compute, Call ''np.sqrt'' Compute,
      Oper ''%'', Call ''print'' Print],
     [Load ''linear'', Oper ''linear.coef_'', Call ''print'' Print]]"

definition scaling_script2 :: "step list list" where
  "scaling_script2 =
    [[Oper ''from sklearn.preprocessing import StandardScaler'', Store ''StandardScaler''],
     [Load ''train_test_split'', Load ''X'', Load ''y'', Call ''train_test_split'' Split,
      Oper ''unpack'', Store ''X_train'', Store ''X_test'', Store ''y_train'', Store ''y_test''],
     [Load ''StandardScaler'', Call ''StandardScaler'' Construct, Store ''ss''],
     [Load ''ss'', Oper ''ss.fit_transform'', Load ''X_train'',
      Call ''ss.fit_transform'' Transform, Mutate ''ss'', Store ''X_train_ss''],
     [Load ''linear_model'', Oper ''linear_model.LinearRegression'',
      Call ''linear_model.LinearRegression'' Construct, Store ''lr''],
     [Load ''lr'', Oper ''lr.fit'', Load ''X_train_ss'', Load ''y_train'', Call ''lr.fit'' Fit,
      Mutate ''lr'', Store ''linear'']]"

definition scaling_script3 :: "step list list" where
  "scaling_script3 =
    [[Load ''linear'', Oper ''linear.predict'', Load ''ss'', Oper ''ss.transform'',
      Load ''X_test'', Call ''ss.transform'' Transform, Call ''linear.predict'' Predict,
      Store ''y_pred''],
     [Load ''np'', Oper ''np.sqrt'', Load ''mean_squared_error'', Load ''y_test'',
      Load ''y_pred'', Call ''mean_squared_error'' Compute, Call ''np.sqrt'' Compute,
      Oper ''%'', Call ''print'' Print]]"

definition scaling_script4 :: "step list list" where
  "scaling_script4 =
    [[Load ''linear'', Oper ''linear.coef_'', Call ''display'' Display]]"

definition scaling_program :: "cmd list" where
  "scaling_program =
     map Simple (scaling_script1 @ scaling_script2 @ scaling_script3 @ scaling_script4)"

subsection \<open>The topic-modelling notebook, step by step\<close>

definition nmf_script1 :: "step list list" where
  "nmf_script1 =
    [[Oper ''from __future__ import print_function'', Store ''print_function''],
     [Oper ''from time import time'', Store ''time''],
     [Oper ''from sklearn.feature_extraction.text import TfidfVectorizer'',
      Store ''TfidfVectorizer'',
      Oper ''from sklearn.feature_extraction.text import CountVectorizer'',
      Store ''CountVectorizer''],
     [Oper ''from sklearn.decomposition import NMF'', Store ''NMF''],
     [Oper ''from sklearn.datasets import fetch_20newsgroups'', Store ''fetch_20newsgroups''],
     [Store ''n_samples''],
     [Store ''n_features''],
     [Store ''n_components''],
     [Store ''n_top_words''],
     [Call ''print'' Log],
     [Load ''time'', Call ''time'' ReadClock, Store ''t0''],
     [Load ''fetch_20newsgroups'', Call ''fetch_20newsgroups'' FetchCorpus, Store ''dataset''],
     [Load ''time'', Call ''time'' ReadClock, Load ''t0'', Oper ''-'', Oper ''%'',
      Call ''print'' Log]]"

definition nmf_script2 :: "step list list" where
  "nmf_script2 =
    [[Load ''dataset'', Oper ''dataset.data'', Load ''n_samples'',
      Oper ''dataset.data[:n_samples]'', Store ''data_samples''],
     [Call ''print'' Log],
     [Load ''TfidfVectorizer'', Load ''n_features'', Call ''TfidfVectorizer'' Construct,
      Store ''tfidf_vectorizer''],
     [Load ''time'', Call ''time'' ReadClock, Store ''t0''],
     [Load ''tfidf_vectorizer'', Oper ''tfidf_vectorizer.fit_transform'', Load ''data_samples'',
      Call ''tfidf_vectorizer.fit_transform'' Transform, Mutate ''tfidf_vectorizer'',
      Store ''tfidf''],
     [Load ''time'', Call ''time'' ReadClock, Load ''t0'', Oper ''-'', Oper ''%'',
      Call ''print'' Log]]"

definition nmf_script3 :: "step list list" where
  "nmf_script3 =
    [[Load ''n_samples'', Load ''n_features'', Oper ''%'', Call ''print'' Log],
     [Load ''time'', Call ''time'' ReadClock, Store ''t0''],
     [Load ''NMF'', Load ''n_components'', Call ''NMF'' Construct, Oper ''NMF(...).fit'',
      Load ''tfidf'', Call ''NMF.fit'' Fit, Store ''nmf''],
     [Load ''time'', Call ''time'' ReadClock, Load ''t0'', Oper ''-'', Oper ''%'',
      Call ''print'' Log]]"

definition nmf_script4 :: "step list list" where
  "nmf_script4 =
    [[Load ''tfidf_vectorizer'', Oper ''tfidf_vectorizer.get_feature_names'',
      Call ''tfidf_vectorizer.get_feature_names'' Compute, Store ''tfidf_feature_names''],
     [Load ''tfidf_feature_names'', Call ''print'' Print]]"

definition nmf_script5 :: "step list list" where
  "nmf_script5 =
    [[Load ''nmf'', Oper ''nmf.components_'', Oper ''nmf.components_[0]'',
      Call ''display'' Display]]"

definition nmf_script6 :: "step list list" where
  "nmf_script6 =
    [[Load ''tfidf_feature_names'', Load ''nmf'', Oper ''nmf.components_'',
      Oper ''nmf.components_[0]'', Call ''zip'' Compute, Oper ''comprehension'',
      Call ''display'' Display]]"

definition nmf_script7 :: "step list list" where
  "nmf_script7 =
    [[Store ''print_top_words''],
     [Call ''print'' Log],
     [Load ''print_top_words'', Load ''nmf'', Load ''tfidf_feature_names'',
      Load ''n_top_words'', Call ''print_top_words'' Print]]"

definition nmf_program :: "cmd list" where
  "nmf_program =
     map Simple (nmf_script1 @ nmf_script2 @ nmf_script3 @ nmf_script4 @ nmf_script5 @
                 nmf_script6 @ nmf_script7)"

subsection \<open>The clustering and dimensionality-reduction notebook, step by step\<close>

definition dimensions_script1 :: "step list list" where
  "dimensions_script1 =
    [[Oper ''import pandas'', Store ''pd''],
     [Oper ''import numpy'', Store ''np''],
     [Oper ''from sklearn.model_selection import train_test_split'', Store ''train_test_split''],
     [Load ''pd'', Oper ''pd.read_csv'',
      Call ''pd.read_csv'' (ReadCsv ''data/diamonds.csv''), Store ''df''],
     [Load ''df'', Oper ''df.drop'', Load ''df'', Oper ''df.columns'', Oper ''df.columns[0]'',
      Call ''df.drop'' Compute, Store ''df2''],
     [Load ''pd'', Oper ''pd.get_dummies'', Load ''df2'', Call ''pd.get_dummies'' Transform,
      Store ''df3''],
     [Load ''df3'', Oper ''df3.iloc'', Oper ''df3.iloc[:,3]'', Store ''y''],
     [Load ''df3'', Oper ''df3.drop'', Load ''df3'', Oper ''df3.columns'',
      Oper ''df3.columns[3]'', Call ''df3.drop'' Compute, Store ''X'']]"

definition dimensions_script2 :: "step list list" where
  "dimensions_script2 =
    [[Oper ''from sklearn.cluster import KMeans'', Store ''KMeans''],
     [Load ''KMeans'', Call ''KMeans'' Construct, Oper ''KMeans(...).fit_predict'', Load ''X'',
      Call ''KMeans.fit_predict'' Fit, Store ''cluster_labels''],
     [Load ''cluster_labels'', Call ''display'' Display]]"

text \<open>
  In the comprehension the iterable \<open>range(0,3)\<close> is evaluated first; each round then
  evaluates \<open>kdf[kdf.cluster==n]['price'].mean()\<close>, where \<open>n\<close> is local to the
  comprehension.
\<close>

definition dimensions_script3 :: "step list list" where
  "dimensions_script3 =
    [[Load ''pd'', Oper ''pd.DataFrame'', Load ''np'', Oper ''np.column_stack'',
      Load ''cluster_labels'', Load ''y'', Call ''np.column_stack'' Compute,
      Call ''pd.DataFrame'' Compute, Store ''kdf''],
     [Call ''range'' Compute] @
     concat (replicate 3
       [Load ''kdf'', Load ''kdf'', Oper ''kdf.cluster'', Oper ''=='',
        Oper ''kdf[kdf.cluster==n]'', Oper ''[price]'', Oper ''.mean'',
        Call ''mean'' Compute]) @
     [Call ''print'' Print]]"

definition dimensions_script4 :: "step list list" where
  "dimensions_script4 =
    [[Oper ''import matplotlib.pyplot'', Store ''plt''],
     [Oper ''from sklearn import datasets'', Store ''datasets''],
     [Oper ''from sklearn.decomposition import PCA'', Store ''PCA''],
     [Load ''datasets'', Oper ''datasets.load_iris'', Call ''datasets.load_iris'' LoadBundled,
      Store ''iris''],
     [Load ''iris'', Oper ''iris.data'', Store ''X''],
     [Load ''iris'', Oper ''iris.target'', Store ''y''],
     [Load ''iris'', Oper ''iris.target_names'', Store ''target_names''],
     [Load ''PCA'', Call ''PCA'' Construct, Store ''pca''],
     [Load ''pca'', Oper ''pca.fit'', Load ''X'', Call ''pca.fit'' Fit, Mutate ''pca'',
      Oper ''pca.fit(X).transform'', Load ''X'', Call ''pca.transform'' Transform, Store ''X_r''],
     [Load ''pca'', Oper ''pca.explained_variance_ratio_'', Call ''str'' Compute, Oper ''%'',
      Call ''print'' Print]]"

definition dimensions_script5 :: "step list list" where
  "dimensions_script5 =
    [[Load ''pca'', Oper ''pca.components_'', Call ''display'' Display]]"

text \<open>
  The loop: \<open>zip(...)\<close> is evaluated once; each of the three rounds unpacks one triple
  into the loop variables and evaluates the call of \<open>plt.scatter\<close>.
\<close>

definition dimensions_script6 :: "step list list" where
  "dimensions_script6 =
    [[Store ''colors''],
     [Store ''lw''],
     [Load ''colors'', Load ''target_names'', Call ''zip'' Compute] @
     concat (replicate 3
       [Oper ''unpack'', Store ''color'', Store ''i'', Store ''target_name'',
        Load ''plt'', Oper ''plt.scatter'',
        Load ''X_r'', Load ''y'', Load ''i'', Oper ''=='', Oper ''X_r[y == i, 0]'',
        Load ''X_r'', Load ''y'', Load ''i'', Oper ''=='', Oper ''X_r[y == i, 1]'',
        Load ''color'', Load ''lw'', Load ''target_name'', Call ''plt.scatter'' Plot]),
     [Load ''plt'', Oper ''plt.legend'', Call ''plt.legend'' Plot],
     [Load ''plt'', Oper ''plt.title'', Call ''plt.title'' Plot, Call ''display'' Display]]"

definition dimensions_program :: "cmd list" where
  "dimensions_program =
     map Simple (dimensions_script1 @ dimensions_script2 @ dimensions_script3 @
                 dimensions_script4 @ dimensions_script5 @ dimensions_script6)"

definition programs :: "cmd list list" where
  "programs = [scaling_program, nmf_program, dimensions_program]"

subsection \<open>From the steps back to the statements\<close>







section \<open>Running a notebook\<close>


text \<open>
  The libraries are not part of the repository. A library is a parameter: given the
  operations that have returned so far and the operation being made (a \<open>Call\<close> or an
  \<open>Oper\<close>), it says whether the operation raises, and what. The state of a run is the
  names bound so far, the operations that have returned, and the exception that is
  propagating, if any.
\<close>

type_synonym library = "step list \<Rightarrow> step \<Rightarrow> error option"

record state =
  bound :: "string list"
  trace :: "step list"
  raised :: "error option"

definition init :: state where
  "init = \<lparr>bound = [], trace = [], raised = None\<rparr>"

text \<open>
  One step. A name that is not bound raises \<open>NameError\<close> when it is looked up; a call
  or operation raises what the library says, and is recorded when it returns.
\<close>

fun exec_step :: "library \<Rightarrow> state \<Rightarrow> step \<Rightarrow> state" where
  "exec_step lib s (Load v) =
     (if v \<in> set (bound s) then s else s\<lparr>raised := Some (NameError v)\<rparr>)"
| "exec_step lib s (Call f k) =
     (case lib (trace s) (Call f k) of
        Some e \<Rightarrow> s\<lparr>raised := Some e\<rparr>
      | None \<Rightarrow> s\<lparr>trace := trace s @ [Call f k]\<rparr>)"
| "exec_step lib s (Oper t) =
     (case lib (trace s) (Oper t) of
        Some e \<Rightarrow> s\<lparr>raised := Some e\<rparr>
      | None \<Rightarrow> s\<lparr>trace := trace s @ [Oper t]\<rparr>)"
| "exec_step lib s (Mutate v) = s"
| "exec_step lib s (Store v) = s\<lparr>bound := v # bound s\<rparr>"

text \<open>Steps in order: an exception ends them.\<close>

fun exec_steps :: "library \<Rightarrow> state \<Rightarrow> step list \<Rightarrow> state" where
  "exec_steps lib s [] = s"
| "exec_steps lib s (x # xs) =
     (let s' = exec_step lib s x
      in if raised s' = None then exec_steps lib s' xs else s')"

text \<open>
  One command. A statement runs its steps. A \<open>try\<close> runs its body and, when the body
  raises, clears the exception and runs the handler.
\<close>

fun exec_cmd :: "library \<Rightarrow> state \<Rightarrow> cmd \<Rightarrow> state" where
  "exec_cmd lib s (Simple xs) = exec_steps lib s xs"
| "exec_cmd lib s (Try body handler) =
     (let s' = exec_steps lib s body
      in if raised s' = None then s' else exec_steps lib (s'\<lparr>raised := None\<rparr>) handler)"

text \<open>The commands in cell order; an exception that no handler caught ends the run.\<close>

fun run :: "library \<Rightarrow> state \<Rightarrow> cmd list \<Rightarrow> state" where
  "run lib s [] = s"
| "run lib s (c # rest) =
     (let s' = exec_cmd lib s c
      in if raised s' = None then run lib s' rest else s')"

text \<open>The steps of a program as written, its operations, and whether it has a handler.\<close>

fun cmd_steps :: "cmd \<Rightarrow> step list" where
  "cmd_steps (Simple xs) = xs"
| "cmd_steps (Try body handler) = body @ handler"

definition steps_of :: "cmd list \<Rightarrow> step list" where
  "steps_of p = concat (map cmd_steps p)"

fun operation :: "step \<Rightarrow> bool" where
  "operation (Call f k) = True"
| "operation (Oper t) = True"
| "operation x = False"


fun handler_free :: "cmd list \<Rightarrow> bool" where
  "handler_free [] = True"
| "handler_free (Simple xs # rest) = handler_free rest"
| "handler_free (Try body handler # rest) = False"

section \<open>Reading the structure of a notebook\<close>



















text \<open>
  Data flow. \<open>writers v nb\<close> and \<open>readers v nb\<close> are the positions of the statements
  that write and read the name \<open>v\<close>.
\<close>

definition writers :: "string \<Rightarrow> stmt list \<Rightarrow> nat list" where
  "writers v nb = filter (\<lambda>i. v \<in> set (writes (nb ! i))) [0..<length nb]"

definition readers :: "string \<Rightarrow> stmt list \<Rightarrow> nat list" where
  "readers v nb = filter (\<lambda>i. v \<in> set (reads (nb ! i))) [0..<length nb]"

text \<open>
  \<open>sources nb vs\<close> collects every name whose value can reach one of the names \<open>vs\<close>
  when the statements \<open>nb\<close> run: the names \<open>vs\<close> themselves, and the names read by a
  statement that writes a collected name.
\<close>

fun sources :: "stmt list \<Rightarrow> string list \<Rightarrow> string list" where
  "sources [] vs = vs"
| "sources (st # rest) vs =
     (let later = sources rest vs
      in if list_ex (\<lambda>w. w \<in> set later) (writes st)
         then remdups (reads st @ later) else later)"

section \<open>The values of a run\<close>

text \<open>
  What a statement computes is decided by the libraries and by the data, which the
  repository does not hold. A behaviour gives, for the statement at each position, the
  values it writes as a function of the values it reads; a run without exceptions is a
  behaviour. An environment maps the names to their values.
\<close>

type_synonym 'v behaviour = "nat \<Rightarrow> 'v list \<Rightarrow> 'v list"

text \<open>Assignment of the written values to the written names, left to right.\<close>

fun bind :: "string list \<Rightarrow> 'v list \<Rightarrow> (string \<Rightarrow> 'v) \<Rightarrow> (string \<Rightarrow> 'v)" where
  "bind (w # ws) (v # vs) env = bind ws vs (env(w := v))"
| "bind ws vs env = env"

text \<open>The statements from position \<open>i\<close> on, run in order on an environment.\<close>

fun eval :: "'v behaviour \<Rightarrow> nat \<Rightarrow> stmt list \<Rightarrow> (string \<Rightarrow> 'v) \<Rightarrow> (string \<Rightarrow> 'v)" where
  "eval f i [] env = env"
| "eval f i (st # rest) env =
     eval f (Suc i) rest (bind (writes st) (f i (map env (reads st))) env)"

text \<open>The environment in which statement \<open>k\<close> of a notebook runs.\<close>

definition env_before ::
  "'v behaviour \<Rightarrow> stmt list \<Rightarrow> nat \<Rightarrow> (string \<Rightarrow> 'v) \<Rightarrow> (string \<Rightarrow> 'v)" where
  "env_before f nb k env = eval f 0 (take k nb) env"

text \<open>
  Two behaviours of a notebook that differ at most in the values they give to the names
  \<open>xs\<close>: each statement returns one value for each name it writes, and the values of
  all other names are the same in both.
\<close>

definition same_except ::
  "string list \<Rightarrow> stmt list \<Rightarrow> 'v behaviour \<Rightarrow> 'v behaviour \<Rightarrow> bool" where
  "same_except xs nb f g \<longleftrightarrow>
     (\<forall>i < length nb. \<forall>us.
        length (f i us) = length (writes (nb ! i)) \<and>
        length (g i us) = length (writes (nb ! i)) \<and>
        (\<forall>k < length (writes (nb ! i)).
           writes (nb ! i) ! k \<notin> set xs \<longrightarrow> f i us ! k = g i us ! k))"

text \<open>
  Two behaviours of the standard-scaling notebook on integers, to run the model: in the
  first every statement writes numbers made from its position and the values it read; the
  second is the same but for the test fold, which gets other values.
\<close>

definition first_run :: "int behaviour" where
  "first_run i us =
     map (\<lambda>k. int i + int k + sum_list us) [0..<length (writes (scaling_notebook ! i))]"

definition other_test_fold :: "int behaviour" where
  "other_test_fold i us =
     map (\<lambda>k. if writes (scaling_notebook ! i) ! k \<in> set [''X_test'', ''y_test'']
              then - 1 else int i + int k + sum_list us)
       [0..<length (writes (scaling_notebook ! i))]"

section \<open>Libraries to run the notebooks against\<close>


definition missing_csv :: library where
  "missing_csv tr x =
     (if x = Call ''pd.read_csv'' (ReadCsv ''data/powerplant.csv'')
      then Some (LibraryError ''FileNotFoundError'') else None)"

definition short_table :: library where
  "short_table tr x = (if x = Oper ''df.iloc[:, 4]'' then Some IndexError else None)"

definition failed_fetch :: library where
  "failed_fetch tr x =
     (if x = Call ''fetch_20newsgroups'' FetchCorpus
      then Some (LibraryError ''URLError'') else None)"

text \<open>
  A script that is not in the repository, to show what a handler does: the read of the
  CSV file inside a \<open>try\<close> whose handler binds an empty table.
\<close>

definition guarded_read :: "cmd list" where
  "guarded_read =
     [Simple [Oper ''import pandas'', Store ''pd''],
      Try [Load ''pd'', Oper ''pd.read_csv'',
           Call ''pd.read_csv'' (ReadCsv ''data/powerplant.csv''), Store ''df'']
          [Load ''pd'', Oper ''pd.DataFrame'', Call ''pd.DataFrame'' Compute, Store ''df'']]"

section \<open>The slice and the sort\<close>

text \<open>
  For a count that is not negative, the slice \<open>xs[:-n - 1:-1]\<close> is the first \<open>n\<close>
  entries of the reversed list. The integer interval of the slice is first rewritten as an
  interval of naturals.
\<close>

lemma upto_as_upt: "0 \<le> a \<Longrightarrow> [a..b] = map int [nat a..<nat (b + 1)]"
proof (induction "nat (b + 1 - a)" arbitrary: a)
  case 0
  then show ?case by simp
next
  case (Suc k)
  from Suc.hyps(2) have ab: "a \<le> b" by linarith
  have k: "k = nat (b + 1 - (a + 1))" using Suc.hyps(2) by linarith
  have "[a..b] = a # [a + 1..b]" using ab by (simp add: upto_rec1)
  also have "[a + 1..b] = map int [nat (a + 1)..<nat (b + 1)]"
    using Suc.hyps(1)[OF k] Suc.prems by simp
  also have "a # map int [nat (a + 1)..<nat (b + 1)] = map int [nat a..<nat (b + 1)]"
  proof -
    have "nat (a + 1) = Suc (nat a)" using Suc.prems by linarith
    moreover have "nat a < nat (b + 1)" using ab Suc.prems by linarith
    ultimately show ?thesis using Suc.prems by (simp add: upt_conv_Cons)
  qed
  finally show ?case .
qed

lemma map_nth_from: "k \<le> length xs \<Longrightarrow> map (\<lambda>i. xs ! i) [k..<length xs] = drop k xs"
  by (simp add: list_eq_iff_nth_eq)

lemma top_slice_drop:
  "top_slice xs n =
     rev (drop (if 0 \<le> n then length xs - nat n else min (nat (- n)) (length xs)) xs)"
proof -
  define len where "len = int (length xs)"
  define stop where "stop = (if - n - 1 < 0 then (if - n - 1 + len < 0 then - 1 else - n - 1 + len)
                  else if len \<le> - n - 1 then len - 1 else - n - 1)"
  define k where "k = (if 0 \<le> n then length xs - nat n else min (nat (- n)) (length xs))"
  have s0: "0 \<le> stop + 1" unfolding stop_def len_def by auto
  have sk: "nat (stop + 1) = k" unfolding stop_def len_def k_def by auto
  have kl: "k \<le> length xs" unfolding k_def by auto
  have "top_slice xs n = map (\<lambda>i. xs ! nat i) (rev [stop + 1 .. len - 1])"
    unfolding top_slice_def stop_def len_def by (simp add: Let_def)
  also have "[stop + 1 .. len - 1] = map int [k..<length xs]"
    using upto_as_upt[OF s0, of "len - 1"] sk by (simp add: len_def)
  also have "map (\<lambda>i. xs ! nat i) (rev (map int [k..<length xs])) = rev (map (\<lambda>i. xs ! i) [k..<length xs])"
    by (simp add: rev_map comp_def)
  also have "\<dots> = rev (drop k xs)" using map_nth_from[OF kl] by simp
  finally show ?thesis unfolding k_def .
qed

lemma top_slice_take: "0 \<le> n \<Longrightarrow> top_slice xs n = take (nat n) (rev xs)"
  by (simp add: top_slice_drop take_rev)

lemma argsort_facts:
  assumes "is_argsort row p"
  shows "set p = {0..<length row}" and "distinct p" and "length p = length row"
    and "sorted_wrt (\<lambda>i j. row ! j \<le> row ! i) (rev p)"
proof -
  from assms have s: "sort p = [0..<length row]" and o: "sorted (map (\<lambda>i. row ! i) p)"
    by (simp_all add: is_argsort_def)
  have "set p = set (sort p)" by simp
  then show "set p = {0..<length row}" using s by simp
  have "distinct (sort p)" using s by simp
  then show "distinct p" by simp
  have "length p = length (sort p)" by simp
  then show "length p = length row" using s by simp
  from o show "sorted_wrt (\<lambda>i j. row ! j \<le> row ! i) (rev p)"
    by (simp add: sorted_map sorted_wrt_rev)
qed

lemma take_largest_first:
  assumes "is_argsort row p"
  shows "largest_first row k (take k (rev p))"
proof -
  note f = argsort_facts[OF assms]
  let ?idx = "take k (rev p)"
  have len: "length ?idx = min k (length row)" using f(3) by simp
  have dist: "distinct ?idx" using f(2) by simp
  have sub: "set ?idx \<subseteq> {0..<length row}"
    using set_take_subset[of k "rev p"] f(1) by simp
  have rng: "list_all (\<lambda>i. i < length row) ?idx"
    using sub by (auto simp: list_all_iff)
  have srt: "sorted_wrt (\<lambda>i j. row ! j \<le> row ! i) ?idx"
    using f(4) by (rule sorted_wrt_take)
  have split: "\<forall>i\<in>set ?idx. \<forall>j\<in>set (drop k (rev p)). row ! j \<le> row ! i"
    using f(4) sorted_wrt_append[of "\<lambda>i j. row ! j \<le> row ! i" ?idx "drop k (rev p)"]
    by simp
  have rest: "j \<in> set ?idx \<or> list_all (\<lambda>i. row ! j \<le> row ! i) ?idx" if "j < length row" for j
  proof (cases "j \<in> set ?idx")
    case True
    then show ?thesis by simp
  next
    case False
    have "set (rev p) = set ?idx \<union> set (drop k (rev p))"
      by (metis append_take_drop_id set_append)
    moreover have "j \<in> set (rev p)" using that f(1) by simp
    ultimately have "j \<in> set (drop k (rev p))" using False by blast
    with split show ?thesis by (auto simp: list_all_iff)
  qed
  have out: "list_all (\<lambda>j. j \<in> set ?idx \<or> list_all (\<lambda>i. row ! j \<le> row ! i) ?idx) [0..<length row]"
    using rest by (simp add: list_all_iff)
  show ?thesis unfolding largest_first_def using len dist rng srt out by blast
qed

lemma top_indices_largest_first:
  "is_argsort row (argsort row) \<Longrightarrow> 0 \<le> n \<Longrightarrow>
   largest_first row (nat n) (top_indices argsort n row)"
  by (simp add: top_indices_def top_slice_take take_largest_first)

lemma lookup_names_eq:
  "lookup_names feature_names idx =
     (if list_all (\<lambda>i. i < length feature_names) idx
      then Inr (map (\<lambda>i. feature_names ! i) idx) else Inl IndexError)"
  by (induction idx) (simp_all add: getitem_def)

lemma topics_loop_eq:
  "topics_loop argsort feature_names n its out =
     (out @ map (topic_line argsort feature_names n)
              (takeWhile (names_known argsort feature_names n) its),
      if list_all (names_known argsort feature_names n) its then None else Some IndexError)"
proof (induction its arbitrary: out)
  case Nil
  then show ?case by simp
next
  case (Cons it its)
  obtain k topic where it: "it = (k, topic)" by (cases it)
  show ?case
    by (simp add: it Cons.IH lookup_names_eq names_known_def topic_line_def)
qed

lemma takeWhile_all: "list_all P xs \<Longrightarrow> takeWhile P xs = xs"
  by (simp add: list_all_iff)

lemma print_top_words_eq:
  "print_top_words argsort model feature_names n =
     (let its = enumerate 0 (components model) in
      if list_all (names_known argsort feature_names n) its
      then (map (topic_line argsort feature_names n) its @ [''''], None)
      else (map (topic_line argsort feature_names n)
              (takeWhile (names_known argsort feature_names n) its), Some IndexError))"
proof (cases "list_all (names_known argsort feature_names n) (enumerate 0 (components model))")
  case True
  then show ?thesis
    by (simp add: print_top_words_def topics_loop_eq Let_def takeWhile_all)
next
  case False
  then show ?thesis
    by (simp add: print_top_words_def topics_loop_eq Let_def)
qed

lemma wide_names_known:
  assumes "is_argsort topic (argsort topic)" and "0 \<le> n" and "length topic \<le> length feature_names"
  shows "names_known argsort feature_names n (k, topic)"
proof -
  have "list_all (\<lambda>i. i < length topic) (top_indices argsort n topic)"
    using top_indices_largest_first[of topic argsort n] assms(1,2)
    by (simp add: largest_first_def)
  then show ?thesis using assms(3) by (auto simp: names_known_def list_all_iff)
qed

section \<open>Runs of a program\<close>

text \<open>
  Steps run in order until one raises. In a program without a handler the commands are
  just their steps, one after the other, so the run ends at the first operation that
  raises, in the state the steps before it have left.
\<close>

lemma exec_steps_append:
  "raised s = None \<Longrightarrow>
   exec_steps lib s (xs @ ys) =
     (let s' = exec_steps lib s xs
      in if raised s' = None then exec_steps lib s' ys else s')"
proof (induction xs arbitrary: s)
  case Nil
  then show ?case by simp
next
  case (Cons x xs)
  define s1 where "s1 = exec_step lib s x"
  show ?case
  proof (cases "raised s1 = None")
    case True
    have a: "exec_steps lib s ((x # xs) @ ys) = exec_steps lib s1 (xs @ ys)"
      using True by (simp add: s1_def Let_def)
    have b: "exec_steps lib s (x # xs) = exec_steps lib s1 xs"
      using True by (simp add: s1_def Let_def)
    show ?thesis unfolding a b using True by (rule Cons.IH)
  next
    case False
    then obtain e where e: "raised (exec_step lib s x) = Some e"
      by (auto simp: s1_def)
    have a: "exec_steps lib s ((x # xs) @ ys) = s1"
      by (simp add: s1_def Let_def e)
    have b: "exec_steps lib s (x # xs) = s1"
      by (simp add: s1_def Let_def e)
    show ?thesis unfolding a b by (simp add: Let_def s1_def e)
  qed
qed

lemma run_handler_free:
  "handler_free p \<Longrightarrow> raised s = None \<Longrightarrow> run lib s p = exec_steps lib s (steps_of p)"
proof (induction p arbitrary: s rule: handler_free.induct)
  case 1
  then show ?case by (simp add: steps_of_def)
next
  case (2 xs rest)
  have "steps_of (Simple xs # rest) = xs @ steps_of rest" by (simp add: steps_of_def)
  moreover have "raised (exec_steps lib s xs) = None \<Longrightarrow>
      run lib (exec_steps lib s xs) rest = exec_steps lib (exec_steps lib s xs) (steps_of rest)"
    using "2.IH" "2.prems"(1) by simp
  ultimately show ?case
    using "2.prems"(2) by (simp add: exec_steps_append Let_def)
next
  case (3 body handler rest)
  then show ?case by simp
qed

lemma operation_raises:
  "operation x \<Longrightarrow> lib (trace s) x = Some e \<Longrightarrow> exec_step lib s x = s\<lparr>raised := Some e\<rparr>"
  by (cases x) simp_all

lemma first_failure:
  assumes "raised s = None"
    and "raised (exec_steps lib s pre) = None"
    and "operation x"
    and "lib (trace (exec_steps lib s pre)) x = Some e"
  shows "exec_steps lib s (pre @ x # post) = (exec_steps lib s pre)\<lparr>raised := Some e\<rparr>"
proof -
  let ?s = "exec_steps lib s pre"
  have "exec_steps lib s (pre @ x # post) = exec_steps lib ?s (x # post)"
    using assms(1,2) by (simp add: exec_steps_append Let_def)
  also have "\<dots> = ?s\<lparr>raised := Some e\<rparr>"
    using operation_raises[of x lib ?s e] assms(3,4) by (simp add: Let_def)
  finally show ?thesis .
qed

lemma programs_handler_free: "list_all handler_free programs"
  by code_simp

text \<open>A handler does change the outcome: the guarded read ends without an exception.\<close>

lemma guarded_read_recovers:
  "\<not> handler_free guarded_read \<and>
   run missing_csv init guarded_read =
     \<lparr>bound = [''df'', ''pd''],
      trace = [Oper ''import pandas'', Oper ''pd.read_csv'', Oper ''pd.DataFrame'',
               Call ''pd.DataFrame'' Compute],
      raised = None\<rparr>"
  by code_simp






section \<open>Values and data flow\<close>

text \<open>
  Slicing is sound: when two behaviours differ only in the values of names outside the
  sources of \<open>vs\<close>, runs from environments that agree on the sources end with the same
  values of \<open>vs\<close>.
\<close>

lemma bind_other: "x \<notin> set ws \<Longrightarrow> bind ws vs env x = env x"
  by (induction ws vs env rule: bind.induct) auto

lemma bind_agree:
  assumes "length vs1 = length ws" and "length vs2 = length ws"
    and "\<forall>k < length ws. ws ! k \<in> L \<longrightarrow> vs1 ! k = vs2 ! k"
    and "\<forall>x \<in> L - set ws. e1 x = e2 x"
  shows "\<forall>x \<in> L. bind ws vs1 e1 x = bind ws vs2 e2 x"
  using assms
proof (induction ws arbitrary: vs1 vs2 e1 e2)
  case Nil
  then show ?case by simp
next
  case (Cons w ws)
  from Cons.prems(1,2) obtain v1 r1 v2 r2 where vs: "vs1 = v1 # r1" "vs2 = v2 # r2"
    and len: "length r1 = length ws" "length r2 = length ws"
    by (cases vs1; cases vs2) auto
  have hd: "w \<in> L \<Longrightarrow> v1 = v2" using Cons.prems(3) vs by auto
  have tl: "\<forall>k < length ws. ws ! k \<in> L \<longrightarrow> r1 ! k = r2 ! k"
    using Cons.prems(3) vs by auto
  have env: "\<forall>x \<in> L - set ws. (e1(w := v1)) x = (e2(w := v2)) x"
    using Cons.prems(4) hd by auto
  have "\<forall>x \<in> L. bind ws r1 (e1(w := v1)) x = bind ws r2 (e2(w := v2)) x"
    using len tl env by (rule Cons.IH)
  then show ?case unfolding vs bind.simps .
qed

lemma sources_Cons_mono: "set (sources rest vs) \<subseteq> set (sources (st # rest) vs)"
  by (auto simp: Let_def)

lemma eval_agree:
  assumes "\<forall>x \<in> set (sources nb vs). e1 x = e2 x"
    and "set xs \<inter> set (sources nb vs) = {}"
    and "\<forall>j < length nb. \<forall>us.
        length (f (i + j) us) = length (writes (nb ! j)) \<and>
        length (g (i + j) us) = length (writes (nb ! j)) \<and>
        (\<forall>k < length (writes (nb ! j)).
           writes (nb ! j) ! k \<notin> set xs \<longrightarrow> f (i + j) us ! k = g (i + j) us ! k)"
  shows "\<forall>x \<in> set vs. eval f i nb e1 x = eval g i nb e2 x"
  using assms
proof (induction nb arbitrary: i e1 e2)
  case Nil
  then show ?case by simp
next
  case (Cons st rest)
  let ?L' = "set (sources rest vs)"
  let ?b1 = "bind (writes st) (f i (map e1 (reads st))) e1"
  let ?b2 = "bind (writes st) (g i (map e2 (reads st))) e2"
  have sub: "?L' \<subseteq> set (sources (st # rest) vs)" by (rule sources_Cons_mono)
  have e: "\<forall>x \<in> ?L'. e1 x = e2 x" using Cons.prems(1) sub by blast
  have dis: "set xs \<inter> ?L' = {}" using Cons.prems(2) sub by blast
  from Cons.prems(3)[rule_format, of 0] have st0: "\<And>us.
        length (f i us) = length (writes st) \<and>
        length (g i us) = length (writes st) \<and>
        (\<forall>k < length (writes st). writes st ! k \<notin> set xs \<longrightarrow> f i us ! k = g i us ! k)"
    by simp
  have step: "\<forall>x \<in> ?L'. ?b1 x = ?b2 x"
  proof (cases "list_ex (\<lambda>w. w \<in> ?L') (writes st)")
    case False
    then have "\<And>x. x \<in> ?L' \<Longrightarrow> x \<notin> set (writes st)" by (auto simp: list_ex_iff)
    then show ?thesis using e by (simp add: bind_other)
  next
    case True
    then have "set (reads st) \<subseteq> set (sources (st # rest) vs)" by (auto simp: Let_def)
    then have rd: "map e1 (reads st) = map e2 (reads st)" using Cons.prems(1) by auto
    show ?thesis
    proof (rule bind_agree)
      show "length (f i (map e1 (reads st))) = length (writes st)" using st0 by blast
      show "length (g i (map e2 (reads st))) = length (writes st)" using st0 by blast
      show "\<forall>k<length (writes st). writes st ! k \<in> ?L' \<longrightarrow>
          f i (map e1 (reads st)) ! k = g i (map e2 (reads st)) ! k"
        using st0 dis rd by (metis disjoint_iff)
      show "\<forall>x \<in> ?L' - set (writes st). e1 x = e2 x" using e by blast
    qed
  qed
  have rest: "\<forall>j < length rest. \<forall>us.
        length (f (Suc i + j) us) = length (writes (rest ! j)) \<and>
        length (g (Suc i + j) us) = length (writes (rest ! j)) \<and>
        (\<forall>k < length (writes (rest ! j)).
           writes (rest ! j) ! k \<notin> set xs \<longrightarrow> f (Suc i + j) us ! k = g (Suc i + j) us ! k)"
  proof (intro allI impI)
    fix j us assume "j < length rest"
    then have "Suc j < length (st # rest)" by simp
    from Cons.prems(3)[rule_format, OF this, of us]
    show "length (f (Suc i + j) us) = length (writes (rest ! j)) \<and>
        length (g (Suc i + j) us) = length (writes (rest ! j)) \<and>
        (\<forall>k < length (writes (rest ! j)).
           writes (rest ! j) ! k \<notin> set xs \<longrightarrow> f (Suc i + j) us ! k = g (Suc i + j) us ! k)"
      by simp
  qed
  have "\<forall>x \<in> set vs. eval f (Suc i) rest ?b1 x = eval g (Suc i) rest ?b2 x"
    using step dis rest by (rule Cons.IH)
  then show ?case by simp
qed

lemma eval_append:
  "eval f i (xs @ ys) env = eval f (i + length xs) ys (eval f i xs env)"
  by (induction xs arbitrary: i env) simp_all

lemma scaling_prefix:
  "take 20 scaling_notebook = take 17 scaling_notebook @
     [\<lparr>writes = [''X_train_ss'', ''ss''], reads = [''ss'', ''X_train''],
       calls = [(''ss.fit_transform'', Transform)]\<rparr>,
      \<lparr>writes = [''lr''], reads = [''linear_model''],
       calls = [(''linear_model.LinearRegression'', Construct)]\<rparr>,
      \<lparr>writes = [''linear'', ''lr''], reads = [''lr'', ''X_train_ss'', ''y_train''],
       calls = [(''lr.fit'', Fit)]\<rparr>]"
  by code_simp

lemma scaling_length: "length scaling_notebook = 23"
  by code_simp

lemma scaling_fit_writes: "writes (scaling_notebook ! 17) = [''X_train_ss'', ''ss'']"
  by code_simp

lemma scaler_sources:
  "set [''X_test'', ''y_test''] \<inter> set (sources (take 20 scaling_notebook) [''ss'']) = {}"
  by code_simp

lemma scaler_as_fitted:
  assumes "\<forall>us. length (f 17 us) = 2"
  shows "env_before f scaling_notebook 20 env ''ss'' =
     f 17 (map (env_before f scaling_notebook 17 env) [''ss'', ''X_train'']) ! 1"
proof -
  let ?e = "env_before f scaling_notebook 17 env"
  have "length (f 17 [?e ''ss'', ?e ''X_train'']) = 2" using assms by blast
  then obtain a b where ab: "f 17 [?e ''ss'', ?e ''X_train''] = [a, b]"
    by (auto simp: length_Suc_conv numeral_2_eq_2)
  have l17: "length (take 17 scaling_notebook) = 17" by (simp add: scaling_length)
  show ?thesis
    unfolding env_before_def scaling_prefix eval_append l17
    using ab by (simp add: env_before_def bind_other)
qed

lemma scaler_same_for_folds:
  assumes "same_except [''X_test'', ''y_test''] scaling_notebook f g"
  shows "env_before f scaling_notebook 20 env ''ss'' = env_before g scaling_notebook 20 env ''ss''"
proof -
  have "\<forall>x \<in> set [''ss'']. eval f 0 (take 20 scaling_notebook) env x
      = eval g 0 (take 20 scaling_notebook) env x"
  proof (rule eval_agree)
    show "\<forall>x \<in> set (sources (take 20 scaling_notebook) [''ss'']). env x = env x" by simp
    show "set [''X_test'', ''y_test''] \<inter> set (sources (take 20 scaling_notebook) [''ss'']) = {}"
      by (rule scaler_sources)
    show "\<forall>j<length (take 20 scaling_notebook). \<forall>us.
       length (f (0 + j) us) = length (writes (take 20 scaling_notebook ! j)) \<and>
       length (g (0 + j) us) = length (writes (take 20 scaling_notebook ! j)) \<and>
       (\<forall>k<length (writes (take 20 scaling_notebook ! j)).
           writes (take 20 scaling_notebook ! j) ! k \<notin> set [''X_test'', ''y_test''] \<longrightarrow>
           f (0 + j) us ! k = g (0 + j) us ! k)"
      using assms by (simp add: same_except_def scaling_length)
  qed
  then show ?thesis by (simp add: env_before_def)
qed

section \<open>The claims\<close>

text \<open>
  Claim C1. In the standard-scaling notebook the scaler fitted on the training fold is
  used, unchanged, for the test fold. Statements are counted from 0. The name \<open>ss\<close> is
  written by two statements only: its construction (statement 16) and \<open>ss.fit_transform(X_train)\<close> (statement 17), which
  reads \<open>ss\<close> and \<open>X_train\<close> and nothing else. Its only other reader is statement 20,
  \<open>linear.predict(ss.transform(X_test))\<close>, which writes \<open>y_pred\<close> alone; so no statement
  between the fit and the test-fold transform touches it. In every run, the scaler that
  statement 20 reads is the value that statement 17 wrote from the scaler and \<open>X_train\<close>
  it read. And the scaler does not depend on the test fold: two runs whose statements
  behave the same but for the values given to \<open>X_test\<close> and \<open>y_test\<close> reach statement
  20 with the same scaler.
\<close>

theorem scaler_fitted_on_training_fold_only:
  assumes "same_except [''X_test'', ''y_test''] scaling_notebook f g"
  shows "writers ''ss'' scaling_notebook = [16, 17] \<and>
   readers ''ss'' scaling_notebook = [17, 20] \<and>
   scaling_notebook ! 17 =
     \<lparr>writes = [''X_train_ss'', ''ss''], reads = [''ss'', ''X_train''],
      calls = [(''ss.fit_transform'', Transform)]\<rparr> \<and>
   scaling_notebook ! 20 =
     \<lparr>writes = [''y_pred''], reads = [''linear'', ''ss'', ''X_test''],
      calls = [(''ss.transform'', Transform), (''linear.predict'', Predict)]\<rparr> \<and>
   env_before f scaling_notebook 20 env ''ss'' =
     f 17 (map (env_before f scaling_notebook 17 env) [''ss'', ''X_train'']) ! 1 \<and>
   env_before f scaling_notebook 20 env ''ss'' = env_before g scaling_notebook 20 env ''ss''"
proof (intro conjI)
  show "writers ''ss'' scaling_notebook = [16, 17]" by code_simp
  show "readers ''ss'' scaling_notebook = [17, 20]" by code_simp
  show "scaling_notebook ! 17 =
     \<lparr>writes = [''X_train_ss'', ''ss''], reads = [''ss'', ''X_train''],
      calls = [(''ss.fit_transform'', Transform)]\<rparr>" by code_simp
  show "scaling_notebook ! 20 =
     \<lparr>writes = [''y_pred''], reads = [''linear'', ''ss'', ''X_test''],
      calls = [(''ss.transform'', Transform), (''linear.predict'', Predict)]\<rparr>" by code_simp
  have "\<forall>us. length (f 17 us) = 2"
    using assms by (simp add: same_except_def scaling_length scaling_fit_writes)
  then show "env_before f scaling_notebook 20 env ''ss'' =
     f 17 (map (env_before f scaling_notebook 17 env) [''ss'', ''X_train'']) ! 1"
    by (rule scaler_as_fitted)
  show "env_before f scaling_notebook 20 env ''ss'' = env_before g scaling_notebook 20 env ''ss''"
    using assms by (rule scaler_same_for_folds)
qed

theorem scaler_fitted_on_training_fold_only_witness:
  "env_before first_run scaling_notebook 20 (\<lambda>x. 0) ''ss'' =
     env_before other_test_fold scaling_notebook 20 (\<lambda>x. 0) ''ss'' \<and>
   env_before first_run scaling_notebook 20 (\<lambda>x. 0) ''X_test'' \<noteq>
     env_before other_test_fold scaling_notebook 20 (\<lambda>x. 0) ''X_test''"
proof -
  have h: "same_except [''X_test'', ''y_test''] scaling_notebook first_run other_test_fold"
    by (simp add: same_except_def first_run_def other_test_fold_def)
  have d: "env_before first_run scaling_notebook 20 (\<lambda>x. 0) ''X_test'' \<noteq>
     env_before other_test_fold scaling_notebook 20 (\<lambda>x. 0) ''X_test''"
    by code_simp
  from scaler_fitted_on_training_fold_only[OF h, of "\<lambda>x. 0"] d show ?thesis by simp
qed



text \<open>
  Claim C5. No notebook has a handler, so none catches, retries or translates an
  exception: when an operation of a notebook raises (\<open>pd.read_csv\<close> on a missing file, a
  subscript on a table with too few columns, \<open>fetch_20newsgroups\<close> on a failed download,
  or any other call or operation) after the steps before it have run without an
  exception, the run ends with exactly that exception, in the state those steps have
  left: no later step runs, binds a name or makes a call.
\<close>

theorem library_error_propagates:
  assumes "p \<in> set programs"
    and "steps_of p = pre @ x # post"
    and "operation x"
    and "raised (exec_steps lib init pre) = None"
    and "lib (trace (exec_steps lib init pre)) x = Some e"
  shows "handler_free p \<and> run lib init p = (exec_steps lib init pre)\<lparr>raised := Some e\<rparr>"
proof -
  have hf: "handler_free p"
    using assms(1) programs_handler_free by (simp add: list_all_iff)
  have i: "raised init = None" by (simp add: init_def)
  have "run lib init p = exec_steps lib init (pre @ x # post)"
    using run_handler_free[OF hf i] assms(2) by simp
  also have "\<dots> = (exec_steps lib init pre)\<lparr>raised := Some e\<rparr>"
    using i assms(4,3,5) by (rule first_failure)
  finally show ?thesis using hf by simp
qed

theorem library_error_propagates_witness:
  "run missing_csv init scaling_program =
     \<lparr>bound = [''np'', ''mean_squared_error'', ''linear_model'', ''train_test_split'', ''pd''],
      trace = [Oper ''import pandas'',
               Oper ''from sklearn.model_selection import train_test_split'',
               Oper ''from sklearn import linear_model'',
               Oper ''from sklearn.metrics import mean_squared_error'',
               Oper ''import numpy'', Oper ''pd.read_csv''],
      raised = Some (LibraryError ''FileNotFoundError'')\<rparr> \<and>
   run short_table init scaling_program =
     \<lparr>bound = [''X'', ''df'', ''np'', ''mean_squared_error'', ''linear_model'',
               ''train_test_split'', ''pd''],
      trace = [Oper ''import pandas'',
               Oper ''from sklearn.model_selection import train_test_split'',
               Oper ''from sklearn import linear_model'',
               Oper ''from sklearn.metrics import mean_squared_error'',
               Oper ''import numpy'', Oper ''pd.read_csv'',
               Call ''pd.read_csv'' (ReadCsv ''data/powerplant.csv''),
               Oper ''df.iloc'', Oper ''df.iloc[:, :4]'', Oper ''df.iloc''],
      raised = Some IndexError\<rparr> \<and>
   run failed_fetch init nmf_program =
     \<lparr>bound = [''t0'', ''n_top_words'', ''n_components'', ''n_features'', ''n_samples'',
               ''fetch_20newsgroups'', ''NMF'', ''CountVectorizer'', ''TfidfVectorizer'',
               ''time'', ''print_function''],
      trace = [Oper ''from __future__ import print_function'',
               Oper ''from time import time'',
               Oper ''from sklearn.feature_extraction.text import TfidfVectorizer'',
               Oper ''from sklearn.feature_extraction.text import CountVectorizer'',
               Oper ''from sklearn.decomposition import NMF'',
               Oper ''from sklearn.datasets import fetch_20newsgroups'',
               Call ''print'' Log, Call ''time'' ReadClock],
      raised = Some (LibraryError ''URLError'')\<rparr>"
proof -
  let ?S = "steps_of scaling_program"
  let ?N = "steps_of nmf_program"
  let ?csv = "Call ''pd.read_csv'' (ReadCsv ''data/powerplant.csv'')"
  let ?sub = "Oper ''df.iloc[:, 4]''"
  let ?fetch = "Call ''fetch_20newsgroups'' FetchCorpus"
  have ms: "scaling_program \<in> set programs" and mn: "nmf_program \<in> set programs"
    by (simp_all add: programs_def)
  have s1: "?S = take 12 ?S @ ?csv # drop 13 ?S" by code_simp
  have o1: "operation ?csv" by simp
  have q1: "raised (exec_steps missing_csv init (take 12 ?S)) = None" by code_simp
  have l1: "missing_csv (trace (exec_steps missing_csv init (take 12 ?S))) ?csv
      = Some (LibraryError ''FileNotFoundError'')"
    by (simp add: missing_csv_def)
  have s2: "?S = take 20 ?S @ ?sub # drop 21 ?S" by code_simp
  have o2: "operation ?sub" by simp
  have q2: "raised (exec_steps short_table init (take 20 ?S)) = None" by code_simp
  have l2: "short_table (trace (exec_steps short_table init (take 20 ?S))) ?sub = Some IndexError"
    by (simp add: short_table_def)
  have s3: "?N = take 21 ?N @ ?fetch # drop 22 ?N" by code_simp
  have o3: "operation ?fetch" by simp
  have q3: "raised (exec_steps failed_fetch init (take 21 ?N)) = None" by code_simp
  have l3: "failed_fetch (trace (exec_steps failed_fetch init (take 21 ?N))) ?fetch
      = Some (LibraryError ''URLError'')"
    by (simp add: failed_fetch_def)
  have r1: "(exec_steps missing_csv init (take 12 ?S))\<lparr>raised := Some (LibraryError ''FileNotFoundError'')\<rparr> =
     \<lparr>bound = [''np'', ''mean_squared_error'', ''linear_model'', ''train_test_split'', ''pd''],
      trace = [Oper ''import pandas'',
               Oper ''from sklearn.model_selection import train_test_split'',
               Oper ''from sklearn import linear_model'',
               Oper ''from sklearn.metrics import mean_squared_error'',
               Oper ''import numpy'', Oper ''pd.read_csv''],
      raised = Some (LibraryError ''FileNotFoundError'')\<rparr>"
    by code_simp
  have r2: "(exec_steps short_table init (take 20 ?S))\<lparr>raised := Some IndexError\<rparr> =
     \<lparr>bound = [''X'', ''df'', ''np'', ''mean_squared_error'', ''linear_model'',
               ''train_test_split'', ''pd''],
      trace = [Oper ''import pandas'',
               Oper ''from sklearn.model_selection import train_test_split'',
               Oper ''from sklearn import linear_model'',
               Oper ''from sklearn.metrics import mean_squared_error'',
               Oper ''import numpy'', Oper ''pd.read_csv'',
               Call ''pd.read_csv'' (ReadCsv ''data/powerplant.csv''),
               Oper ''df.iloc'', Oper ''df.iloc[:, :4]'', Oper ''df.iloc''],
      raised = Some IndexError\<rparr>"
    by code_simp
  have r3: "(exec_steps failed_fetch init (take 21 ?N))\<lparr>raised := Some (LibraryError ''URLError'')\<rparr> =
     \<lparr>bound = [''t0'', ''n_top_words'', ''n_components'', ''n_features'', ''n_samples'',
               ''fetch_20newsgroups'', ''NMF'', ''CountVectorizer'', ''TfidfVectorizer'',
               ''time'', ''print_function''],
      trace = [Oper ''from __future__ import print_function'',
               Oper ''from time import time'',
               Oper ''from sklearn.feature_extraction.text import TfidfVectorizer'',
               Oper ''from sklearn.feature_extraction.text import CountVectorizer'',
               Oper ''from sklearn.decomposition import NMF'',
               Oper ''from sklearn.datasets import fetch_20newsgroups'',
               Call ''print'' Log, Call ''time'' ReadClock],
      raised = Some (LibraryError ''URLError'')\<rparr>"
    by code_simp
  from library_error_propagates[OF ms s1 o1 q1 l1] library_error_propagates[OF ms s2 o2 q2 l2]
    library_error_propagates[OF mn s3 o3 q3 l3] r1 r2 r3
  show ?thesis by simp
qed






text \<open>
  Claim C9, as amended. Let \<open>argsort\<close> sort every topic row and let \<open>n_top_words\<close> be
  at least 0. For every topic, the positions the message names are the \<open>n_top_words\<close>
  largest entries of the row (all entries when the row has fewer), largest first. When
  every such position is below \<open>len(feature_names)\<close>, the function prints, for each
  topic in order, \<open>Topic #\<close>, the topic's index, a colon and the names at those positions
  separated by blanks, then an empty line, and raises nothing; this is the case whenever no
  row is wider than the vocabulary. Otherwise it raises \<open>IndexError\<close> at the first topic
  with a position outside the vocabulary, having printed the messages of the topics before
  it and nothing else.
\<close>

theorem print_top_words_largest_first:
  assumes "\<forall>topic\<in>set (components model). is_argsort topic (argsort topic)"
    and "0 \<le> n_top_words"
  shows "list_all (\<lambda>topic. largest_first topic (nat n_top_words)
                      (top_indices argsort n_top_words topic)) (components model) \<and>
    print_top_words argsort model feature_names n_top_words =
      (if list_all (names_known argsort feature_names n_top_words)
            (enumerate 0 (components model))
       then (map (topic_line argsort feature_names n_top_words)
               (enumerate 0 (components model)) @ [''''], None)
       else (map (topic_line argsort feature_names n_top_words)
               (takeWhile (names_known argsort feature_names n_top_words)
                  (enumerate 0 (components model))), Some IndexError)) \<and>
    (list_all (\<lambda>topic. length topic \<le> length feature_names) (components model) \<longrightarrow>
       snd (print_top_words argsort model feature_names n_top_words) = None)"
proof (intro conjI impI)
  show "list_all (\<lambda>topic. largest_first topic (nat n_top_words)
          (top_indices argsort n_top_words topic)) (components model)"
    using assms by (simp add: list_all_iff top_indices_largest_first)
  show eq: "print_top_words argsort model feature_names n_top_words =
      (if list_all (names_known argsort feature_names n_top_words)
            (enumerate 0 (components model))
       then (map (topic_line argsort feature_names n_top_words)
               (enumerate 0 (components model)) @ [''''], None)
       else (map (topic_line argsort feature_names n_top_words)
               (takeWhile (names_known argsort feature_names n_top_words)
                  (enumerate 0 (components model))), Some IndexError))"
    by (simp add: print_top_words_eq Let_def)
  assume wide: "list_all (\<lambda>topic. length topic \<le> length feature_names) (components model)"
  have "names_known argsort feature_names n_top_words it"
    if "it \<in> set (enumerate 0 (components model))" for it
  proof -
    obtain k topic where it: "it = (k, topic)" by (cases it)
    with that have "topic \<in> set (components model)"
      by (auto simp: in_set_enumerate_eq)
    with assms wide show ?thesis
      unfolding it by (intro wide_names_known) (auto simp: list_all_iff)
  qed
  then have "list_all (names_known argsort feature_names n_top_words)
      (enumerate 0 (components model))"
    by (simp add: list_all_iff)
  then show "snd (print_top_words argsort model feature_names n_top_words) = None"
    by (simp add: eq)
qed

theorem print_top_words_largest_first_witness:
  "print_top_words argsort_stable \<lparr>components = [[1, 5, 3 :: int], [2, 0, 7]]\<rparr>
      [''ant'', ''bee'', ''cat''] 2
     = ([''Topic #0: bee cat'', ''Topic #1: cat ant'', ''''], None) \<and>
   largest_first [1, 5, 3 :: int] 2 (top_indices argsort_stable 2 [1, 5, 3 :: int]) \<and>
   largest_first [2, 0, 7 :: int] 2 (top_indices argsort_stable 2 [2, 0, 7 :: int])"
proof -
  let ?m = "\<lparr>components = [[1, 5, 3 :: int], [2, 0, 7]]\<rparr>"
  let ?fn = "[''ant'', ''bee'', ''cat'']"
  have a: "\<forall>topic\<in>set (components ?m). is_argsort topic (argsort_stable topic)"
    by code_simp
  have n: "(0::int) \<le> 2" by simp
  have k: "list_all (names_known argsort_stable ?fn 2) (enumerate 0 (components ?m))"
    by code_simp
  have l: "map (topic_line argsort_stable ?fn 2) (enumerate 0 (components ?m)) @ ['''']
      = [''Topic #0: bee cat'', ''Topic #1: cat ant'', '''']"
    by code_simp
  from print_top_words_largest_first[OF a n, of ?fn] k l show ?thesis
    by simp
qed

text \<open>
  Claim C9 as stated says that a vocabulary shorter than the width of the rows makes the
  indexing fail. It fails only when a chosen position is outside the vocabulary: with two
  names, a row of three weights whose largest is at position 0, and one word per topic,
  nothing is raised.
\<close>

theorem short_vocabulary_counterexample:
   "length [''ant'', ''bee''] < length [5, 1, 0 :: int] \<and>
    is_argsort [5, 1, 0 :: int] (argsort_stable [5, 1, 0 :: int]) \<and>
    print_top_words argsort_stable \<lparr>components = [[5, 1, 0 :: int]]\<rparr> [''ant'', ''bee''] 1
      = ([''Topic #0: ant'', ''''], None)"
  by code_simp

end
